theory Spec2Isabelle
  imports Main "HOL-Library.Sublist"
begin

section \<open>JavaScript values read by the handlers\<close>

text \<open>
  The handlers of \<^verbatim>\<open>App.tsx\<close> read the parsed JSON body of a response
  (\<^verbatim>\<open>await res.json()\<close>, of type \<^verbatim>\<open>any\<close>) and make three observations of it:
  a property read (\<^verbatim>\<open>.detail\<close>, \<^verbatim>\<open>.reply\<close>, \<^verbatim>\<open>.access_token\<close>), a truthiness test
  (\<^verbatim>\<open>errorData.detail || 'Authentication failed'\<close>) and a conversion to a string inside a
  template literal. Strings are lists of characters, each character one code unit in the
  range U+0000 to U+00FF. A number is given by the two observations the program makes of
  it: whether it is truthy (neither zero nor NaN) and the text that the conversion to a
  string gives for it.
\<close>

datatype js_value =
    JUndefined
  | JNull
  | JBool bool
  | JNum bool string
  | JStr string
  | JArr "js_value list"
  | JObj "(string \<times> js_value) list"

text \<open>ToBoolean: what \<^verbatim>\<open>||\<close> and \<^verbatim>\<open>if\<close> test.\<close>

fun truthy :: "js_value \<Rightarrow> bool" where
  "truthy JUndefined = False"
| "truthy JNull = False"
| "truthy (JBool b) = b"
| "truthy (JNum nonzero shown) = nonzero"
| "truthy (JStr s) = (s \<noteq> [])"
| "truthy (JArr xs) = True"
| "truthy (JObj kvs) = True"

fun join_comma :: "string list \<Rightarrow> string" where
  "join_comma [] = []"
| "join_comma [x] = x"
| "join_comma (x # y # ys) = x @ '','' @ join_comma (y # ys)"

text \<open>
  ToString, as a template literal applies it; \<open>None\<close> when the conversion throws a
  TypeError. An array is joined with commas, an undefined or null element giving the empty
  string, every other element converted in its turn. An object parsed from JSON with no
  property of its own named \<^verbatim>\<open>toString\<close> gives the fixed text of \<^verbatim>\<open>Object.prototype\<close>;
  with such a property, which JSON cannot make callable, neither \<^verbatim>\<open>toString\<close> nor
  \<^verbatim>\<open>valueOf\<close> yields a primitive and the conversion throws.
\<close>

fun js_to_string :: "js_value \<Rightarrow> string option" where
  "js_to_string JUndefined = Some ''undefined''"
| "js_to_string JNull = Some ''null''"
| "js_to_string (JBool b) = Some (if b then ''true'' else ''false'')"
| "js_to_string (JNum nonzero shown) = Some shown"
| "js_to_string (JStr s) = Some s"
| "js_to_string (JArr xs) =
     map_option join_comma
       (those (map (\<lambda>v. if v = JUndefined \<or> v = JNull then Some [] else js_to_string v) xs))"
| "js_to_string (JObj kvs) =
     (if ''toString'' \<in> set (map fst kvs) then None else Some ''[object Object]'')"

text \<open>
  A property read \<^verbatim>\<open>v.k\<close>, for a name \<open>k\<close> that no built-in prototype defines (the three
  names above). On \<^verbatim>\<open>null\<close> and \<^verbatim>\<open>undefined\<close> the read throws a TypeError, which is
  \<open>None\<close> here; on an object it is the own property, or \<^verbatim>\<open>undefined\<close>; on any other
  value it is \<^verbatim>\<open>undefined\<close>. The list of an object holds its own properties.
\<close>

fun get_field :: "js_value \<Rightarrow> string \<Rightarrow> js_value option" where
  "get_field JUndefined k = None"
| "get_field JNull k = None"
| "get_field (JObj kvs) k = (case map_of kvs k of Some v \<Rightarrow> Some v | None \<Rightarrow> Some JUndefined)"
| "get_field v k = Some JUndefined"

text \<open>
  \<^verbatim>\<open>String.prototype.trim\<close>: white space and line terminators are removed at both ends.
  Among the code units below U+0100 these are tab, line feed, vertical tab, form feed,
  carriage return, space and the no-break space.
\<close>

definition is_white_space :: "char \<Rightarrow> bool" where
  "is_white_space c =
     (c \<in> set [CHR 0x09, CHR 0x0A, CHR 0x0B, CHR 0x0C, CHR 0x0D, CHR 0x20, CHR 0xA0])"

definition trim :: "string \<Rightarrow> string" where
  "trim s = rev (dropWhile is_white_space (rev (dropWhile is_white_space s)))"

section \<open>State of the component and of its collaborators\<close>

datatype screen = Auth | Home | Chat | Emergency

text \<open>An entry of the conversation: \<^verbatim>\<open>{ type, value, sender }\<close>.\<close>

record chat_entry =
  entry_type :: string
  entry_value :: js_value
  entry_sender :: string

text \<open>
  What \<^verbatim>\<open>fetch\<close> is called with: the address, and the \<^verbatim>\<open>method\<close>, \<^verbatim>\<open>headers\<close> and
  \<^verbatim>\<open>body\<close> of its second argument.
\<close>

datatype form_value =
    FText string
  | FFile (file_uri: string) (file_name: string) (file_type: string)

datatype body =
    FormData "(string \<times> form_value) list"
  | JsonBody "(string \<times> string) list"

record request =
  url :: string
  req_method :: string
  headers :: "(string \<times> string) list"
  req_body :: body

text \<open>
  What \<^verbatim>\<open>fetch\<close> gives back: the promise rejects (no response), or it resolves to a
  response with a status and a body. Of the body only \<^verbatim>\<open>res.json()\<close> is read: \<open>None\<close>
  when the body is not JSON (the promise of \<^verbatim>\<open>res.json()\<close> rejects), the parsed value
  otherwise. \<^verbatim>\<open>res.ok\<close> is true for a status from 200 to 299.
\<close>

datatype fetch_result =
    NetworkError
  | Response nat "js_value option"

definition res_ok :: "nat \<Rightarrow> bool" where
  "res_ok status = (200 \<le> status \<and> status \<le> 299)"

text \<open>What the image picker gives back: a cancellation, or the URIs of the assets chosen.\<close>

datatype picker_result = Canceled | Assets "string list"

text \<open>
  The \<^verbatim>\<open>useState\<close> cells of \<^verbatim>\<open>App\<close> (lines 12 to 19), the key-value store behind
  \<^verbatim>\<open>AsyncStorage\<close>, and the two logs of what the component does to the outside: the
  alerts shown and the requests issued, both in order. State setters take effect in the
  order they are called. The store is a map whose reads always answer; what is written
  to the developer console is left out. The last field records that a function given to
  a state setter has thrown: React runs such a function when it renders, outside the
  handler that called the setter, so no \<^verbatim>\<open>try\<close> of the handler catches the error and
  the update is not applied.
\<close>

record state =
  screen :: screen
  message :: string
  chat :: "chat_entry list"
  image_uri :: "string option"
  email :: string
  password :: string
  loading :: bool
  storage :: "string \<rightharpoonup> string"
  alerts :: "string list"
  requests :: "request list"
  render_error :: bool

definition init :: state where
  "init = \<lparr> screen = Auth, message = [], chat = [], image_uri = None, email = [],
            password = [], loading = False, storage = Map.empty, alerts = [],
            requests = [], render_error = False \<rparr>"

definition API_URL :: string where
  "API_URL = ''http://192.168.56.1:8000''"

definition alert :: "string \<Rightarrow> state \<Rightarrow> state" where
  "alert s st = st\<lparr> alerts := alerts st @ [s] \<rparr>"

definition append_chat :: "chat_entry \<Rightarrow> state \<Rightarrow> state" where
  "append_chat e st = st\<lparr> chat := chat st @ [e] \<rparr>"

definition text_entry :: "js_value \<Rightarrow> string \<Rightarrow> chat_entry" where
  "text_entry v who = \<lparr> entry_type = ''text'', entry_value = v, entry_sender = who \<rparr>"

definition updater_throws :: "state \<Rightarrow> state" where
  "updater_throws st = st\<lparr> render_error := True \<rparr>"

text \<open>The truthiness of the pending image, \<^verbatim>\<open>string | null\<close>: a string other than the empty one.\<close>

definition image_truthy :: "string option \<Rightarrow> bool" where
  "image_truthy i = (case i of None \<Rightarrow> False | Some u \<Rightarrow> u \<noteq> [])"

text \<open>The fields of a multipart body; a JSON body has none.\<close>

definition form_fields :: "request \<Rightarrow> (string \<times> form_value) list" where
  "form_fields req = (case req_body req of FormData fd \<Rightarrow> fd | JsonBody kvs \<Rightarrow> [])"

section \<open>sendMessage\<close>

text \<open>
  Lines 21 to 53: from the call of \<^verbatim>\<open>sendMessage\<close> to the call of \<^verbatim>\<open>fetch\<close>. \<open>None\<close>
  when the guard of line 23 returns; otherwise the state at the moment the request is
  issued, and the request.
\<close>

definition sendMessage_request :: "state \<Rightarrow> (state \<times> request) option" where
  "sendMessage_request st =
     (if trim (message st) = [] \<and> \<not> image_truthy (image_uri st) then None
      else
        let st1 = st\<lparr> loading := True \<rparr>;
            st2 = (if trim (message st) \<noteq> []
                   then append_chat (text_entry (JStr (message st)) ''user'') st1
                   else st1);
            token = storage st2 ''token'';
            fd1 = (if trim (message st) \<noteq> []
                   then [(''message'', FText (trim (message st)))] else []);
            fd2 = (case image_uri st of
                     None \<Rightarrow> fd1
                   | Some u \<Rightarrow>
                       if u \<noteq> [] then fd1 @ [(''image'', FFile u ''upload.jpg'' ''image/jpeg'')]
                       else fd1);
            st3 = st2\<lparr> message := [], image_uri := None \<rparr>;
            req = \<lparr> url = API_URL @ ''/chat/send'', req_method = ''POST'',
                    headers = [(''Authorization'',
                                ''Bearer '' @ (case token of None \<Rightarrow> ''null'' | Some t \<Rightarrow> t))],
                    req_body = FormData fd2 \<rparr>
        in Some (st3\<lparr> requests := requests st3 @ [req] \<rparr>, req))"

text \<open>Lines 82 to 89: the \<^verbatim>\<open>catch\<close> block.\<close>

definition sendMessage_catch :: "state \<Rightarrow> state" where
  "sendMessage_catch st =
     append_chat (text_entry (JStr ''Server not reachable'') ''ai'') (st\<lparr> loading := False \<rparr>)"

text \<open>
  Lines 55 to 89: from the outcome of \<^verbatim>\<open>fetch\<close> to the end. A rejected \<^verbatim>\<open>fetch\<close> and a
  rejected \<^verbatim>\<open>res.json()\<close> are awaited inside the \<^verbatim>\<open>try\<close> and reach the \<^verbatim>\<open>catch\<close> block.
  The reads \<^verbatim>\<open>errorData.detail\<close> (line 70) and \<^verbatim>\<open>data.reply\<close> (line 80) and the template
  literal of line 70 stand inside the function given to \<^verbatim>\<open>setChat\<close>: when one of them
  throws, the \<^verbatim>\<open>catch\<close> block is not reached and no entry is appended.
\<close>

definition sendMessage_response :: "state \<Rightarrow> fetch_result \<Rightarrow> state" where
  "sendMessage_response st r =
     (case r of
        NetworkError \<Rightarrow> sendMessage_catch st
      | Response status parsed \<Rightarrow>
          let st1 = st\<lparr> loading := False \<rparr> in
          if \<not> res_ok status then
            (case parsed of
               None \<Rightarrow> sendMessage_catch st1
             | Some errorData \<Rightarrow>
                 (case get_field errorData ''detail'' of
                    None \<Rightarrow> updater_throws st1
                  | Some d \<Rightarrow>
                      (case js_to_string (if truthy d then d else JStr ''Authentication failed'') of
                         None \<Rightarrow> updater_throws st1
                       | Some shown \<Rightarrow>
                           append_chat (text_entry (JStr (''Error: '' @ shown)) ''ai'') st1)))
          else
            (case parsed of
               None \<Rightarrow> sendMessage_catch st1
             | Some data \<Rightarrow>
                 (case get_field data ''reply'' of
                    None \<Rightarrow> updater_throws st1
                  | Some reply \<Rightarrow> append_chat (text_entry reply ''ai'') st1)))"

text \<open>The whole handler; \<open>r\<close> is the outcome of the request, read only if one is issued.\<close>

definition sendMessage :: "state \<Rightarrow> fetch_result \<Rightarrow> state" where
  "sendMessage st r =
     (case sendMessage_request st of
        None \<Rightarrow> alert ''Please enter a message or select an image'' st
      | Some (st1, req) \<Rightarrow> sendMessage_response st1 r)"

section \<open>pickImage\<close>

text \<open>
  Lines 94 to 109. With no asset in a result that is not cancelled, the read
  \<^verbatim>\<open>result.assets[0].uri\<close> throws before any setter is called, and the state is as it was.
\<close>

definition pickImage :: "state \<Rightarrow> picker_result \<Rightarrow> state" where
  "pickImage st result =
     (case result of
        Canceled \<Rightarrow> st
      | Assets uris \<Rightarrow>
          (case uris of
             [] \<Rightarrow> st
           | uri # rest \<Rightarrow>
               append_chat
                 \<lparr> entry_type = ''image'', entry_value = JStr uri, entry_sender = ''user'' \<rparr>
                 (st\<lparr> image_uri := Some uri \<rparr>)))"

section \<open>signup and login\<close>

text \<open>The body \<^verbatim>\<open>JSON.stringify({ email, password })\<close> and the request around it.\<close>

definition auth_request :: "string \<Rightarrow> state \<Rightarrow> request" where
  "auth_request path st =
     \<lparr> url = API_URL @ path, req_method = ''POST'',
       headers = [(''Content-Type'', ''application/json'')],
       req_body = JsonBody [(''email'', email st), (''password'', password st)] \<rparr>"

text \<open>Lines 115 to 132.\<close>

definition signup :: "state \<Rightarrow> fetch_result \<Rightarrow> state" where
  "signup st r =
     (let st1 = st\<lparr> requests := requests st @ [auth_request ''/auth/signup'' st] \<rparr> in
      case r of
        NetworkError \<Rightarrow> alert ''Server not reachable'' st1
      | Response status parsed \<Rightarrow>
          if \<not> res_ok status then alert ''Signup failed'' st1
          else alert ''Signup successful, please login'' st1)"

text \<open>
  \<^verbatim>\<open>AsyncStorage.setItem\<close>, on the native platforms: a string is stored under the key,
  replacing what was there; for any other value the promise rejects and nothing is
  stored, which is \<open>None\<close> here.
\<close>

definition setItem :: "(string \<rightharpoonup> string) \<Rightarrow> string \<Rightarrow> js_value \<Rightarrow> (string \<rightharpoonup> string) option" where
  "setItem store k v = (case v of JStr s \<Rightarrow> Some (store(k \<mapsto> s)) | _ \<Rightarrow> None)"

text \<open>
  Lines 134 to 154. The \<^verbatim>\<open>catch\<close> block is reached by a rejected \<^verbatim>\<open>fetch\<close>, a rejected
  \<^verbatim>\<open>res.json()\<close>, a TypeError of the property read and a rejected \<^verbatim>\<open>setItem\<close>.
\<close>

definition login :: "state \<Rightarrow> fetch_result \<Rightarrow> state" where
  "login st r =
     (let st1 = st\<lparr> requests := requests st @ [auth_request ''/auth/login'' st] \<rparr> in
      case r of
        NetworkError \<Rightarrow> alert ''Server not reachable'' st1
      | Response status parsed \<Rightarrow>
          if \<not> res_ok status then alert ''Invalid credentials'' st1
          else
            (case parsed of
               None \<Rightarrow> alert ''Server not reachable'' st1
             | Some data \<Rightarrow>
                 (case get_field data ''access_token'' of
                    None \<Rightarrow> alert ''Server not reachable'' st1
                  | Some tok \<Rightarrow>
                      (case setItem (storage st1) ''token'' tok of
                         None \<Rightarrow> alert ''Server not reachable'' st1
                       | Some store \<Rightarrow> st1\<lparr> storage := store, screen := Home \<rparr>))))"

section \<open>Sequences of operations\<close>

text \<open>
  What can happen to the component: a handler runs (with the outcome of its request or
  of the picker), a button sets the screen, or an input field sets its text.
\<close>

datatype event =
    SendMessage fetch_result
  | PickImage picker_result
  | Login fetch_result
  | Signup fetch_result
  | SetScreen screen
  | SetMessage string
  | SetEmail string
  | SetPassword string

fun step :: "state \<Rightarrow> event \<Rightarrow> state" where
  "step st (SendMessage r) = sendMessage st r"
| "step st (PickImage p) = pickImage st p"
| "step st (Login r) = login st r"
| "step st (Signup r) = signup st r"
| "step st (SetScreen s) = st\<lparr> screen := s \<rparr>"
| "step st (SetMessage s) = st\<lparr> message := s \<rparr>"
| "step st (SetEmail s) = st\<lparr> email := s \<rparr>"
| "step st (SetPassword s) = st\<lparr> password := s \<rparr>"

definition run :: "state \<Rightarrow> event list \<Rightarrow> state" where
  "run st es = foldl step st es"

section \<open>Facts about the parts of sendMessage\<close>

lemmas handler_defs =
  sendMessage_def sendMessage_request_def sendMessage_response_def sendMessage_catch_def
  append_chat_def text_entry_def alert_def image_truthy_def trim_def is_white_space_def
  init_def res_ok_def API_URL_def pickImage_def login_def signup_def auth_request_def
  setItem_def form_fields_def run_def updater_throws_def Let_def

lemma sendMessage_request_passes:
  assumes "trim (message st) \<noteq> [] \<or> image_truthy (image_uri st)"
  shows "\<exists>st1 req. sendMessage_request st = Some (st1, req)"
  using assms by (auto simp: sendMessage_request_def Let_def)

lemma sendMessage_request_state:
  assumes "sendMessage_request st = Some (st1, req)"
  shows "message st1 = []" and "image_uri st1 = None" and "loading st1 = True"
    and "chat st1 = chat st @ (if trim (message st) \<noteq> []
                               then [text_entry (JStr (message st)) ''user''] else [])"
    and "requests st1 = requests st @ [req]"
    and "email st1 = email st" and "password st1 = password st"
    and "screen st1 = screen st" and "storage st1 = storage st" and "alerts st1 = alerts st"
  using assms
  by (auto simp: sendMessage_request_def Let_def append_chat_def split: if_splits)

lemma sendMessage_request_fields:
  assumes "sendMessage_request st = Some (st1, req)"
  shows "form_fields req =
           (if trim (message st) \<noteq> [] then [(''message'', FText (trim (message st)))] else [])
           @ (case image_uri st of
                None \<Rightarrow> []
              | Some u \<Rightarrow>
                  if u \<noteq> [] then [(''image'', FFile u ''upload.jpg'' ''image/jpeg'')] else [])"
  using assms
  by (auto simp: sendMessage_request_def Let_def form_fields_def split: if_splits option.splits)

lemma sendMessage_response_frame:
  "message (sendMessage_response st r) = message st"
  "image_uri (sendMessage_response st r) = image_uri st"
  "loading (sendMessage_response st r) = False"
  "email (sendMessage_response st r) = email st"
  "password (sendMessage_response st r) = password st"
  "requests (sendMessage_response st r) = requests st"
  by (auto simp: sendMessage_response_def sendMessage_catch_def append_chat_def
      updater_throws_def Let_def split: fetch_result.splits option.splits)


lemma sendMessage_response_unparsed:
  "chat (sendMessage_response st (Response status None)) =
     chat st @ [\<lparr> entry_type = ''text'', entry_value = JStr ''Server not reachable'',
                  entry_sender = ''ai'' \<rparr>]"
  by (simp add: sendMessage_response_def sendMessage_catch_def append_chat_def text_entry_def
      Let_def)

lemma sendMessage_response_reply:
  assumes "res_ok status" and "get_field data ''reply'' = Some reply"
  shows "chat (sendMessage_response st (Response status (Some data))) =
     chat st @ [\<lparr> entry_type = ''text'', entry_value = reply, entry_sender = ''ai'' \<rparr>]"
  using assms
  by (simp add: sendMessage_response_def append_chat_def text_entry_def Let_def)

lemma sendMessage_response_detail:
  assumes "\<not> res_ok status" and "get_field errorData ''detail'' = Some d"
    and "js_to_string (if truthy d then d else JStr ''Authentication failed'') = Some shown"
  shows "chat (sendMessage_response st (Response status (Some errorData))) =
     chat st @ [\<lparr> entry_type = ''text'', entry_value = JStr (''Error: '' @ shown),
                  entry_sender = ''ai'' \<rparr>]"
  using assms
  by (simp add: sendMessage_response_def append_chat_def text_entry_def Let_def)

text \<open>
  A body that is the JSON value null: the property read throws inside the function given
  to \<^verbatim>\<open>setChat\<close>, and the conversation stays as it was.
\<close>

lemma sendMessage_response_null:
  "chat (sendMessage_response st (Response status (Some JNull))) = chat st"
  "render_error (sendMessage_response st (Response status (Some JNull))) = True"
  by (simp_all add: sendMessage_response_def updater_throws_def Let_def)

lemma sendMessage_response_chat_prefix:
  "prefix (chat st) (chat (sendMessage_response st r))"
  by (auto simp: sendMessage_response_def sendMessage_catch_def append_chat_def
      updater_throws_def Let_def split: fetch_result.splits option.splits)

lemma sendMessage_after_request:
  "sendMessage_request st = Some (st1, req) \<Longrightarrow> sendMessage st r = sendMessage_response st1 r"
  by (simp add: sendMessage_def)

section \<open>Facts about trim\<close>

lemma last_dropWhile_nonempty:
  "dropWhile P xs \<noteq> [] \<Longrightarrow> last (dropWhile P xs) = last xs"
proof -
  assume ne: "dropWhile P xs \<noteq> []"
  have "last xs = last (takeWhile P xs @ dropWhile P xs)" by simp
  also have "\<dots> = last (dropWhile P xs)" using ne by (simp only: last_append if_False)
  finally show ?thesis by simp
qed

lemma trim_hd_last:
  assumes "trim s \<noteq> []"
  shows "\<not> is_white_space (hd (trim s))" and "\<not> is_white_space (last (trim s))"
proof -
  let ?a = "dropWhile is_white_space s"
  let ?b = "dropWhile is_white_space (rev ?a)"
  from assms have b: "?b \<noteq> []" by (simp add: trim_def)
  have a: "?a \<noteq> []"
  proof
    assume "?a = []"
    then have "?b = []" by (simp only: rev.simps dropWhile.simps)
    with b show False by (simp only: not_False_eq_True simp_thms)
  qed
  have "hd (trim s) = last ?b" by (simp add: trim_def hd_rev)
  also have "\<dots> = last (rev ?a)" using b by (rule last_dropWhile_nonempty)
  also have "\<dots> = hd ?a" using a by (simp add: last_rev)
  finally show "\<not> is_white_space (hd (trim s))"
    using a hd_dropWhile [of is_white_space s] by simp
  have "last (trim s) = hd ?b" using b by (simp add: trim_def last_rev)
  then show "\<not> is_white_space (last (trim s))"
    using b hd_dropWhile [of is_white_space "rev ?a"] by simp
qed

text \<open>A text that trimming leaves non-empty is changed by it exactly when an end is white.\<close>

lemma trim_ends:
  assumes "trim s \<noteq> []"
  shows "(trim s \<noteq> s) = (is_white_space (hd s) \<or> is_white_space (last s))"
proof (cases "is_white_space (hd s) \<or> is_white_space (last s)")
  case True
  then show ?thesis using trim_hd_last [OF assms] by auto
next
  case False
  from assms have ne: "s \<noteq> []" by (auto simp: trim_def)
  from False ne have 1: "dropWhile is_white_space s = s"
    by (cases s) auto
  from False ne have 2: "dropWhile is_white_space (rev s) = rev s"
    by (simp add: dropWhile_eq_self_iff hd_rev)
  from False 1 2 show ?thesis by (simp add: trim_def)
qed

section \<open>Facts about the conversation\<close>

lemma sendMessage_chat_prefix: "prefix (chat st) (chat (sendMessage st r))"
proof (cases "sendMessage_request st")
  case None
  then show ?thesis by (simp add: sendMessage_def alert_def)
next
  case (Some p)
  obtain st1 req where p: "p = (st1, req)" by (cases p)
  with Some have rq: "sendMessage_request st = Some (st1, req)" by simp
  have "prefix (chat st) (chat st1)"
    unfolding sendMessage_request_state(4) [OF rq] by simp
  also have "prefix (chat st1) (chat (sendMessage_response st1 r))"
    by (rule sendMessage_response_chat_prefix)
  finally show ?thesis
    by (simp add: sendMessage_after_request [OF rq])
qed

lemma pickImage_chat_prefix: "prefix (chat st) (chat (pickImage st p))"
  by (simp add: pickImage_def append_chat_def split: picker_result.splits list.splits)

lemma login_chat: "chat (login st r) = chat st"
  by (simp add: login_def alert_def Let_def split: fetch_result.splits option.splits)

lemma signup_chat: "chat (signup st r) = chat st"
  by (simp add: signup_def alert_def Let_def split: fetch_result.splits)

lemma step_chat_prefix: "prefix (chat st) (chat (step st e))"
  by (cases e) (simp_all add: sendMessage_chat_prefix pickImage_chat_prefix login_chat signup_chat)

lemma run_chat_prefix: "prefix (chat st) (chat (run st es))"
  unfolding run_def
proof (induction es arbitrary: st)
  case Nil
  show ?case by simp
next
  case (Cons e es)
  have "prefix (chat st) (chat (step st e))" by (rule step_chat_prefix)
  also have "prefix (chat (step st e)) (chat (foldl step (step st e) es))" by (rule Cons.IH)
  finally show ?case by simp
qed

section \<open>A successful send\<close>

text \<open>
  Claim C1. For every call of sendMessage whose pending text is non-empty after trimming
  and whose request is answered with a status from 200 to 299: the request is issued
  from a state \<open>st1\<close> whose conversation is the one before the call with exactly one
  entry of kind text and origin user added at its end. When the body is JSON and the
  read of its reply field succeeds (the body is not null), the conversation after the
  call is that of \<open>st1\<close> with exactly one entry of kind text and origin assistant, carrying
  that reply field, added at its end; when the body is not JSON, it is that of \<open>st1\<close>
  with exactly one entry of kind text and origin assistant, reading "Server not
  reachable", added at its end. In both cases the user's entry comes first.
\<close>

theorem sendMessage_success_entries:
  assumes "trim (message st) \<noteq> []" and "res_ok status"
  shows "\<exists>st1 req. sendMessage_request st = Some (st1, req)
       \<and> chat st1 =
           chat st @ [\<lparr> entry_type = ''text'', entry_value = JStr (message st),
                        entry_sender = ''user'' \<rparr>]
       \<and> requests st1 = requests st @ [req]
       \<and> (\<forall>data reply. get_field data ''reply'' = Some reply \<longrightarrow>
            chat (sendMessage st (Response status (Some data))) =
              chat st1 @ [\<lparr> entry_type = ''text'', entry_value = reply,
                            entry_sender = ''ai'' \<rparr>])
       \<and> chat (sendMessage st (Response status None)) =
           chat st1 @ [\<lparr> entry_type = ''text'', entry_value = JStr ''Server not reachable'',
                         entry_sender = ''ai'' \<rparr>]"
proof -
  from assms(1) obtain st1 req where rq: "sendMessage_request st = Some (st1, req)"
    using sendMessage_request_passes by blast
  have "chat st1 =
      chat st @ [\<lparr> entry_type = ''text'', entry_value = JStr (message st),
                   entry_sender = ''user'' \<rparr>]"
    using sendMessage_request_state(4) [OF rq] assms(1) by (simp add: text_entry_def)
  moreover have "requests st1 = requests st @ [req]"
    by (rule sendMessage_request_state(5) [OF rq])
  moreover have "\<forall>data reply. get_field data ''reply'' = Some reply \<longrightarrow>
      chat (sendMessage st (Response status (Some data))) =
        chat st1 @ [\<lparr> entry_type = ''text'', entry_value = reply, entry_sender = ''ai'' \<rparr>]"
    using assms(2)
    by (simp add: sendMessage_after_request [OF rq] sendMessage_response_reply)
  moreover have "chat (sendMessage st (Response status None)) =
      chat st1 @ [\<lparr> entry_type = ''text'', entry_value = JStr ''Server not reachable'',
                    entry_sender = ''ai'' \<rparr>]"
    by (simp add: sendMessage_after_request [OF rq] sendMessage_response_unparsed)
  ultimately show ?thesis using rq by blast
qed

theorem sendMessage_success_entries_witness:
  "trim (message (init\<lparr> message := ''hi'' \<rparr>)) \<noteq> [] \<and> res_ok 200
   \<and> get_field (JObj [(''reply'', JStr ''hello'')]) ''reply'' = Some (JStr ''hello'')
   \<and> chat (sendMessage (init\<lparr> message := ''hi'' \<rparr>)
       (Response 200 (Some (JObj [(''reply'', JStr ''hello'')])))) =
       [\<lparr> entry_type = ''text'', entry_value = JStr ''hi'', entry_sender = ''user'' \<rparr>,
        \<lparr> entry_type = ''text'', entry_value = JStr ''hello'', entry_sender = ''ai'' \<rparr>]"
proof -
  have t: "trim (message (init\<lparr> message := ''hi'' \<rparr>)) \<noteq> []"
    by (simp add: trim_def is_white_space_def)
  have k: "res_ok 200"
    by (simp add: res_ok_def)
  have g: "get_field (JObj [(''reply'', JStr ''hello'')]) ''reply'' = Some (JStr ''hello'')"
    by simp
  from sendMessage_success_entries [OF t k] obtain st1 req where
    1: "sendMessage_request (init\<lparr> message := ''hi'' \<rparr>) = Some (st1, req)" and
    2: "chat st1 = chat (init\<lparr> message := ''hi'' \<rparr>)
          @ [\<lparr> entry_type = ''text'', entry_value = JStr (message (init\<lparr> message := ''hi'' \<rparr>)),
               entry_sender = ''user'' \<rparr>]" and
    3: "\<forall>data reply. get_field data ''reply'' = Some reply \<longrightarrow>
          chat (sendMessage (init\<lparr> message := ''hi'' \<rparr>) (Response 200 (Some data))) =
            chat st1 @ [\<lparr> entry_type = ''text'', entry_value = reply, entry_sender = ''ai'' \<rparr>]"
    by blast
  from 3 g have "chat (sendMessage (init\<lparr> message := ''hi'' \<rparr>)
       (Response 200 (Some (JObj [(''reply'', JStr ''hello'')])))) =
       chat st1 @ [\<lparr> entry_type = ''text'', entry_value = JStr ''hello'', entry_sender = ''ai'' \<rparr>]"
    by blast
  with 2 t k g show ?thesis by (simp add: init_def)
qed

text \<open>
  A status of 200 with a body that is not JSON: \<^verbatim>\<open>res.json()\<close> rejects inside the
  \<^verbatim>\<open>try\<close>, and the entry of the assistant is the one of the \<^verbatim>\<open>catch\<close> block, not a
  reply of the response.
\<close>

theorem sendMessage_success_unparsed_counterexample:
  "trim (message (init\<lparr> message := ''hi'' \<rparr>)) \<noteq> [] \<and> res_ok 200
   \<and> chat (sendMessage (init\<lparr> message := ''hi'' \<rparr>) (Response 200 None)) =
       [\<lparr> entry_type = ''text'', entry_value = JStr ''hi'', entry_sender = ''user'' \<rparr>,
        \<lparr> entry_type = ''text'', entry_value = JStr ''Server not reachable'',
          entry_sender = ''ai'' \<rparr>]"
  by (simp add: handler_defs)

section \<open>The empty composition\<close>

text \<open>
  Claim C2. In every state whose pending text is empty after trimming and whose pending
  image is not set, sendMessage shows the validation alert, issues no request, and
  changes nothing else: the state after it is the state before it with the alert added
  to the log of alerts; the conversation, the loading flag and the log of requests are
  the ones before.
\<close>

theorem sendMessage_empty_composition:
  assumes "trim (message st) = []" and "image_uri st = None"
  shows "sendMessage_request st = None
       \<and> sendMessage st r =
           st\<lparr> alerts := alerts st @ [''Please enter a message or select an image''] \<rparr>
       \<and> chat (sendMessage st r) = chat st
       \<and> loading (sendMessage st r) = loading st
       \<and> requests (sendMessage st r) = requests st"
  using assms by (simp add: sendMessage_def sendMessage_request_def image_truthy_def alert_def)

theorem sendMessage_empty_composition_witness:
  "trim (message (init\<lparr> message := ''  '' \<rparr>)) = []
   \<and> image_uri (init\<lparr> message := ''  '' \<rparr>) = None
   \<and> sendMessage (init\<lparr> message := ''  '' \<rparr>) NetworkError =
       init\<lparr> message := ''  '', alerts := [''Please enter a message or select an image''] \<rparr>
   \<and> requests (sendMessage (init\<lparr> message := ''  '' \<rparr>) NetworkError) = []"
proof -
  have t: "trim (message (init\<lparr> message := ''  '' \<rparr>)) = []"
    by (simp add: trim_def is_white_space_def)
  have i: "image_uri (init\<lparr> message := ''  '' \<rparr>) = None"
    by (simp add: init_def)
  show ?thesis
    using t i sendMessage_empty_composition [OF t i, of NetworkError]
    by (simp add: init_def)
qed

section \<open>A send answered with an error status\<close>

text \<open>
  Claim C3. For every call of sendMessage that issues its request and is answered with a
  status outside 200 to 299, with \<open>st1\<close> the state from which the request was issued:
  when the body is JSON and the read of its detail field succeeds (the body is not
  null), the conversation after the call is that of \<open>st1\<close> with exactly one entry of kind
  text and origin assistant added at its end, which reads "Error: " followed by the
  detail field converted to a string if that field is truthy and the conversion
  succeeds, and "Error: Authentication failed" if the field is absent or falsy (the
  empty string, null, false, zero); when the body is not JSON, the one entry added reads
  "Server not reachable". A status of 401 with the body \<^verbatim>\<open>{detail: "token expired"}\<close>
  gives the entry \<^verbatim>\<open>{type: 'text', value: 'Error: token expired', sender: 'ai'}\<close>.
\<close>

theorem sendMessage_failure_entry:
  assumes "trim (message st) \<noteq> [] \<or> image_truthy (image_uri st)" and "\<not> res_ok status"
  shows "\<exists>st1 req. sendMessage_request st = Some (st1, req)
       \<and> (\<forall>errorData d shown.
            get_field errorData ''detail'' = Some d \<and> truthy d \<and> js_to_string d = Some shown \<longrightarrow>
            chat (sendMessage st (Response status (Some errorData))) =
              chat st1 @ [\<lparr> entry_type = ''text'', entry_value = JStr (''Error: '' @ shown),
                            entry_sender = ''ai'' \<rparr>])
       \<and> (\<forall>errorData d.
            get_field errorData ''detail'' = Some d \<and> \<not> truthy d \<longrightarrow>
            chat (sendMessage st (Response status (Some errorData))) =
              chat st1 @ [\<lparr> entry_type = ''text'',
                            entry_value = JStr ''Error: Authentication failed'',
                            entry_sender = ''ai'' \<rparr>])
       \<and> chat (sendMessage st (Response status None)) =
           chat st1 @ [\<lparr> entry_type = ''text'', entry_value = JStr ''Server not reachable'',
                         entry_sender = ''ai'' \<rparr>]"
proof -
  from assms(1) obtain st1 req where rq: "sendMessage_request st = Some (st1, req)"
    using sendMessage_request_passes by blast
  have "\<forall>errorData d shown.
      get_field errorData ''detail'' = Some d \<and> truthy d \<and> js_to_string d = Some shown \<longrightarrow>
      chat (sendMessage st (Response status (Some errorData))) =
        chat st1 @ [\<lparr> entry_type = ''text'', entry_value = JStr (''Error: '' @ shown),
                      entry_sender = ''ai'' \<rparr>]"
    using assms(2)
    by (simp add: sendMessage_after_request [OF rq] sendMessage_response_detail)
  moreover have "\<forall>errorData d.
      get_field errorData ''detail'' = Some d \<and> \<not> truthy d \<longrightarrow>
      chat (sendMessage st (Response status (Some errorData))) =
        chat st1 @ [\<lparr> entry_type = ''text'', entry_value = JStr ''Error: Authentication failed'',
                      entry_sender = ''ai'' \<rparr>]"
    using assms(2)
    by (simp add: sendMessage_after_request [OF rq]
        sendMessage_response_detail [where shown = "''Authentication failed''"])
  moreover have "chat (sendMessage st (Response status None)) =
      chat st1 @ [\<lparr> entry_type = ''text'', entry_value = JStr ''Server not reachable'',
                    entry_sender = ''ai'' \<rparr>]"
    by (simp add: sendMessage_after_request [OF rq] sendMessage_response_unparsed)
  ultimately show ?thesis using rq by blast
qed

theorem sendMessage_failure_entry_witness:
  "trim (message (init\<lparr> message := ''hi'' \<rparr>)) \<noteq> [] \<and> \<not> res_ok 401
   \<and> get_field (JObj [(''detail'', JStr ''token expired'')]) ''detail'' =
       Some (JStr ''token expired'')
   \<and> truthy (JStr ''token expired'')
   \<and> js_to_string (JStr ''token expired'') = Some ''token expired''
   \<and> chat (sendMessage (init\<lparr> message := ''hi'' \<rparr>)
       (Response 401 (Some (JObj [(''detail'', JStr ''token expired'')])))) =
       [\<lparr> entry_type = ''text'', entry_value = JStr ''hi'', entry_sender = ''user'' \<rparr>,
        \<lparr> entry_type = ''text'', entry_value = JStr ''Error: token expired'',
          entry_sender = ''ai'' \<rparr>]
   \<and> get_field (JObj []) ''detail'' = Some JUndefined
   \<and> chat (sendMessage (init\<lparr> message := ''hi'' \<rparr>) (Response 401 (Some (JObj [])))) =
       [\<lparr> entry_type = ''text'', entry_value = JStr ''hi'', entry_sender = ''user'' \<rparr>,
        \<lparr> entry_type = ''text'', entry_value = JStr ''Error: Authentication failed'',
          entry_sender = ''ai'' \<rparr>]"
proof -
  have t: "trim (message (init\<lparr> message := ''hi'' \<rparr>)) \<noteq> [] \<or>
      image_truthy (image_uri (init\<lparr> message := ''hi'' \<rparr>))"
    by (simp add: trim_def is_white_space_def)
  have k: "\<not> res_ok 401"
    by (simp add: res_ok_def)
  have u: "chat (the (map_option fst (sendMessage_request (init\<lparr> message := ''hi'' \<rparr>)))) =
      [\<lparr> entry_type = ''text'', entry_value = JStr ''hi'', entry_sender = ''user'' \<rparr>]"
    by (simp add: handler_defs)
  from sendMessage_failure_entry [OF t k] obtain st1 req where
    1: "sendMessage_request (init\<lparr> message := ''hi'' \<rparr>) = Some (st1, req)" and
    2: "\<forall>errorData d shown.
          get_field errorData ''detail'' = Some d \<and> truthy d \<and> js_to_string d = Some shown \<longrightarrow>
          chat (sendMessage (init\<lparr> message := ''hi'' \<rparr>) (Response 401 (Some errorData))) =
            chat st1 @ [\<lparr> entry_type = ''text'', entry_value = JStr (''Error: '' @ shown),
                          entry_sender = ''ai'' \<rparr>]" and
    3: "\<forall>errorData d.
          get_field errorData ''detail'' = Some d \<and> \<not> truthy d \<longrightarrow>
          chat (sendMessage (init\<lparr> message := ''hi'' \<rparr>) (Response 401 (Some errorData))) =
            chat st1 @ [\<lparr> entry_type = ''text'',
                          entry_value = JStr ''Error: Authentication failed'',
                          entry_sender = ''ai'' \<rparr>]"
    by blast
  from u 1 have c: "chat st1 =
      [\<lparr> entry_type = ''text'', entry_value = JStr ''hi'', entry_sender = ''user'' \<rparr>]"
    by simp
  have "chat (sendMessage (init\<lparr> message := ''hi'' \<rparr>)
       (Response 401 (Some (JObj [(''detail'', JStr ''token expired'')])))) =
       chat st1 @ [\<lparr> entry_type = ''text'', entry_value = JStr (''Error: '' @ ''token expired''),
                     entry_sender = ''ai'' \<rparr>]"
    using 2 [rule_format, of "JObj [(''detail'', JStr ''token expired'')]"
        "JStr ''token expired''" "''token expired''"]
    by simp
  moreover have "chat (sendMessage (init\<lparr> message := ''hi'' \<rparr>) (Response 401 (Some (JObj [])))) =
       chat st1 @ [\<lparr> entry_type = ''text'', entry_value = JStr ''Error: Authentication failed'',
                     entry_sender = ''ai'' \<rparr>]"
    using 3 [rule_format, of "JObj []" JUndefined] by simp
  ultimately show ?thesis using c k by (simp add: trim_def is_white_space_def init_def)
qed

text \<open>
  A status of 500 with a body that is not JSON gives "Server not reachable", with no
  "Error: " before it; and with the body \<^verbatim>\<open>{detail: ""}\<close>, whose detail field is present
  and empty, it gives "Error: Authentication failed".
\<close>

theorem sendMessage_failure_entry_counterexample:
  "\<not> res_ok 500
   \<and> chat (sendMessage (init\<lparr> message := ''hi'' \<rparr>) (Response 500 None)) =
       [\<lparr> entry_type = ''text'', entry_value = JStr ''hi'', entry_sender = ''user'' \<rparr>,
        \<lparr> entry_type = ''text'', entry_value = JStr ''Server not reachable'',
          entry_sender = ''ai'' \<rparr>]
   \<and> chat (sendMessage (init\<lparr> message := ''hi'' \<rparr>)
       (Response 500 (Some (JObj [(''detail'', JStr [])])))) =
       [\<lparr> entry_type = ''text'', entry_value = JStr ''hi'', entry_sender = ''user'' \<rparr>,
        \<lparr> entry_type = ''text'', entry_value = JStr ''Error: Authentication failed'',
          entry_sender = ''ai'' \<rparr>]"
  by (simp add: handler_defs)

section \<open>A send whose request throws\<close>



section \<open>login\<close>

text \<open>
  Claim C5. For every call of login answered with a status from 200 to 299 and a JSON
  body whose access_token field is a string, that string is written to the store under
  the key "token", replacing what was there and leaving the other keys alone, and the
  screen becomes home. For every call answered with a status outside 200 to 299 the
  screen and the store are unchanged and "Invalid credentials" is shown.
\<close>

theorem login_outcomes:
  "(res_ok status \<and> get_field data ''access_token'' = Some (JStr tok) \<longrightarrow>
      storage (login st (Response status (Some data))) = (storage st)(''token'' \<mapsto> tok)
      \<and> screen (login st (Response status (Some data))) = Home)
   \<and> (\<not> res_ok status \<longrightarrow>
      screen (login st (Response status parsed)) = screen st
      \<and> storage (login st (Response status parsed)) = storage st
      \<and> alerts (login st (Response status parsed)) = alerts st @ [''Invalid credentials''])"
  by (simp add: login_def alert_def setItem_def Let_def)

theorem login_outcomes_witness:
  "res_ok 200
   \<and> get_field (JObj [(''access_token'', JStr ''tok123'')]) ''access_token'' = Some (JStr ''tok123'')
   \<and> storage (login (init\<lparr> storage := [''token'' \<mapsto> ''old''] \<rparr>)
        (Response 200 (Some (JObj [(''access_token'', JStr ''tok123'')])))) ''token'' = Some ''tok123''
   \<and> screen (login (init\<lparr> storage := [''token'' \<mapsto> ''old''] \<rparr>)
        (Response 200 (Some (JObj [(''access_token'', JStr ''tok123'')])))) = Home
   \<and> \<not> res_ok 401
   \<and> screen (login init (Response 401 None)) = Auth
   \<and> alerts (login init (Response 401 None)) = [''Invalid credentials'']"
  using login_outcomes
    [of 200 "JObj [(''access_token'', JStr ''tok123'')]" "''tok123''"
        "init\<lparr> storage := [''token'' \<mapsto> ''old''] \<rparr>" None]
    login_outcomes [of 401 "JNull" "''x''" init None]
  by (simp add: handler_defs)

text \<open>
  A status of 200 with a body that is not JSON: \<^verbatim>\<open>res.json()\<close> rejects, the \<^verbatim>\<open>catch\<close>
  block shows "Server not reachable", nothing is stored and the screen stays on auth.
\<close>

theorem login_success_unparsed_counterexample:
  "res_ok 200
   \<and> screen (login init (Response 200 None)) = Auth
   \<and> storage (login init (Response 200 None)) ''token'' = None
   \<and> alerts (login init (Response 200 None)) = [''Server not reachable'']"
  by (simp add: handler_defs)

section \<open>The multipart body\<close>

text \<open>
  Claim C6. For every call of sendMessage that issues its request, from a state whose
  pending image is not the empty string: the multipart body holds a message field if and
  only if the pending text is non-empty after trimming, and then the field is the trimmed
  text; it holds an image field if and only if a pending image is set, and then the field
  is the attachment of that URI named upload.jpg with the type image/jpeg; and it holds
  nothing else, the message field first.
\<close>

theorem sendMessage_form_fields:
  assumes "sendMessage_request st = Some (st1, req)" and "image_uri st \<noteq> Some []"
  shows "form_fields req =
           (if trim (message st) \<noteq> [] then [(''message'', FText (trim (message st)))] else [])
           @ (case image_uri st of
                None \<Rightarrow> []
              | Some u \<Rightarrow> [(''image'', FFile u ''upload.jpg'' ''image/jpeg'')])
       \<and> (''message'' \<in> fst ` set (form_fields req)) = (trim (message st) \<noteq> [])
       \<and> (''image'' \<in> fst ` set (form_fields req)) = (image_uri st \<noteq> None)"
  using assms(2) by (auto simp: sendMessage_request_fields [OF assms(1)] split: option.splits)

text \<open>The text "hello" with no image, and the image \<^verbatim>\<open>file:///a.jpg\<close> with no text.\<close>

theorem sendMessage_form_fields_witness:
  "(\<exists>st1. sendMessage_request (init\<lparr> message := ''hello'' \<rparr>) =
       Some (st1, \<lparr> url = ''http://192.168.56.1:8000/chat/send'', req_method = ''POST'',
                    headers = [(''Authorization'', ''Bearer null'')],
                    req_body = FormData [(''message'', FText ''hello'')] \<rparr>))
   \<and> (\<exists>st1. sendMessage_request (init\<lparr> image_uri := Some ''file:///a.jpg'' \<rparr>) =
       Some (st1, \<lparr> url = ''http://192.168.56.1:8000/chat/send'', req_method = ''POST'',
                    headers = [(''Authorization'', ''Bearer null'')],
                    req_body = FormData
                      [(''image'', FFile ''file:///a.jpg'' ''upload.jpg'' ''image/jpeg'')] \<rparr>))"
proof -
  obtain st1 req where 1: "sendMessage_request (init\<lparr> message := ''hello'' \<rparr>) = Some (st1, req)"
    by (simp add: handler_defs)
  have 2: "image_uri (init\<lparr> message := ''hello'' \<rparr>) \<noteq> Some []"
    by (simp add: init_def)
  have "form_fields req = [(''message'', FText ''hello'')]"
    using sendMessage_form_fields [OF 1 2] by (simp add: handler_defs)
  then show ?thesis using 1 by (simp add: handler_defs)
qed

section \<open>The pending composition\<close>

text \<open>
  Claim C7. For every call of sendMessage that passes the guard (the pending text is
  non-empty after trimming, or a pending image is set), the pending text and the pending
  image are both cleared in the state from which the request is issued, and they are
  cleared after the call whatever the outcome \<open>r\<close> of the request: an answer with a
  success status, an answer with an error status, or no answer.
\<close>

theorem sendMessage_clears_composition:
  assumes "trim (message st) \<noteq> [] \<or> image_truthy (image_uri st)"
  shows "\<exists>st1 req. sendMessage_request st = Some (st1, req)
       \<and> message st1 = [] \<and> image_uri st1 = None
       \<and> sendMessage st r = sendMessage_response st1 r
       \<and> message (sendMessage st r) = [] \<and> image_uri (sendMessage st r) = None"
proof -
  from assms obtain st1 req where rq: "sendMessage_request st = Some (st1, req)"
    using sendMessage_request_passes by blast
  show ?thesis
    using sendMessage_request_state(1,2) [OF rq] rq
    by (simp add: sendMessage_after_request [OF rq] sendMessage_response_frame)
qed

theorem sendMessage_clears_composition_witness:
  "trim (message (init\<lparr> message := ''hi'', image_uri := Some ''file:///a.jpg'' \<rparr>)) \<noteq> []
   \<and> message (sendMessage (init\<lparr> message := ''hi'', image_uri := Some ''file:///a.jpg'' \<rparr>)
        (Response 200 (Some (JObj [(''reply'', JStr ''ok'')])))) = []
   \<and> image_uri (sendMessage (init\<lparr> message := ''hi'', image_uri := Some ''file:///a.jpg'' \<rparr>)
        (Response 401 None)) = None
   \<and> message (sendMessage (init\<lparr> message := ''hi'', image_uri := Some ''file:///a.jpg'' \<rparr>)
        NetworkError) = []"
  using sendMessage_clears_composition
    [of "init\<lparr> message := ''hi'', image_uri := Some ''file:///a.jpg'' \<rparr>" NetworkError]
  by (simp add: handler_defs)

section \<open>The conversation only grows\<close>

text \<open>
  Claim C8. The conversation is append-only. Every event (sendMessage with any outcome,
  pickImage with any outcome, and every other handler and setter) leaves the conversation
  as it was or adds entries at its end; so after any sequence of events the conversation
  before it is a prefix of the conversation after it: every earlier entry is still there,
  unchanged and at its position, and the length has not decreased.
\<close>

theorem chat_append_only:
  "prefix (chat st) (chat (step st e))
   \<and> prefix (chat st) (chat (run st es))
   \<and> take (length (chat st)) (chat (run st es)) = chat st
   \<and> length (chat st) \<le> length (chat (run st es))"
  using run_chat_prefix [of st es] step_chat_prefix [of st e]
  by (auto simp: prefix_def)

theorem chat_append_only_witness:
  "chat (pickImage init (Assets [''file:///a.jpg''])) =
     [\<lparr> entry_type = ''image'', entry_value = JStr ''file:///a.jpg'', entry_sender = ''user'' \<rparr>]
   \<and> chat (run (pickImage init (Assets [''file:///a.jpg'']))
        [SetMessage ''hi'', SendMessage NetworkError, PickImage Canceled]) =
     [\<lparr> entry_type = ''image'', entry_value = JStr ''file:///a.jpg'', entry_sender = ''user'' \<rparr>,
      \<lparr> entry_type = ''text'', entry_value = JStr ''hi'', entry_sender = ''user'' \<rparr>,
      \<lparr> entry_type = ''text'', entry_value = JStr ''Server not reachable'',
        entry_sender = ''ai'' \<rparr>]"
  using chat_append_only
    [of "pickImage init (Assets [''file:///a.jpg''])" "PickImage Canceled"
        "[SetMessage ''hi'', SendMessage NetworkError, PickImage Canceled]"]
  by (simp add: handler_defs)

section \<open>The credentials\<close>

text \<open>
  Claim C9. The email and the password are changed by their own input fields only: every
  other event, and so login with any outcome and every change of screen, leaves both as
  they were. After a successful login has moved the screen from auth to home they still
  hold the strings that were submitted.
\<close>

theorem login_keeps_credentials:
  "email (login st r) = email st \<and> password (login st r) = password st
   \<and> email (step st e) = (case e of SetEmail s \<Rightarrow> s | _ \<Rightarrow> email st)
   \<and> password (step st e) = (case e of SetPassword s \<Rightarrow> s | _ \<Rightarrow> password st)"
proof -
  have l: "email (login st r) = email st \<and> password (login st r) = password st" for r
    by (simp add: login_def alert_def Let_def split: fetch_result.splits option.splits)
  have s: "email (signup st r) = email st \<and> password (signup st r) = password st" for r
    by (simp add: signup_def alert_def Let_def split: fetch_result.splits)
  have p: "email (pickImage st x) = email st \<and> password (pickImage st x) = password st" for x
    by (simp add: pickImage_def append_chat_def split: picker_result.splits list.splits)
  have m: "email (sendMessage st r) = email st \<and> password (sendMessage st r) = password st" for r
  proof (cases "sendMessage_request st")
    case None
    then show ?thesis by (simp add: sendMessage_def alert_def)
  next
    case (Some q)
    obtain st1 req where "q = (st1, req)" by (cases q)
    with Some have rq: "sendMessage_request st = Some (st1, req)" by simp
    show ?thesis
      by (simp add: sendMessage_after_request [OF rq] sendMessage_response_frame
          sendMessage_request_state(6,7) [OF rq])
  qed
  show ?thesis using l s p m by (cases e) simp_all
qed

theorem login_keeps_credentials_witness:
  "email (login (init\<lparr> email := ''a@b.c'', password := ''pw'' \<rparr>) NetworkError) = ''a@b.c''
   \<and> password (step (init\<lparr> email := ''a@b.c'', password := ''pw'' \<rparr>) (SetScreen Home)) = ''pw''"
  using login_keeps_credentials
    [of "init\<lparr> email := ''a@b.c'', password := ''pw'' \<rparr>" NetworkError "SetScreen Home"]
  by (simp add: handler_defs)

text \<open>A successful login from the auth screen: the screen is home, and both strings are kept.\<close>

theorem login_clears_credentials_counterexample:
  "screen (init\<lparr> email := ''a@b.c'', password := ''pw'' \<rparr>) = Auth
   \<and> screen (login (init\<lparr> email := ''a@b.c'', password := ''pw'' \<rparr>)
        (Response 200 (Some (JObj [(''access_token'', JStr ''tok123'')])))) = Home
   \<and> email (login (init\<lparr> email := ''a@b.c'', password := ''pw'' \<rparr>)
        (Response 200 (Some (JObj [(''access_token'', JStr ''tok123'')])))) = ''a@b.c''
   \<and> password (login (init\<lparr> email := ''a@b.c'', password := ''pw'' \<rparr>)
        (Response 200 (Some (JObj [(''access_token'', JStr ''tok123'')])))) = ''pw''"
  by (simp add: handler_defs)

section \<open>What is shown and what is sent\<close>

text \<open>
  Claim C10. For every call of sendMessage whose pending text is non-empty after
  trimming, the entry of the user added to the conversation carries the pending text as
  it was typed, and the message field of the multipart body carries the trimmed text.
  The two differ exactly when the pending text begins or ends with white space, so they
  differ for every text with white space at an end.
\<close>

theorem sendMessage_shows_untrimmed:
  assumes "trim (message st) \<noteq> []"
  shows "\<exists>st1 req. sendMessage_request st = Some (st1, req)
       \<and> chat st1 =
           chat st @ [\<lparr> entry_type = ''text'', entry_value = JStr (message st),
                        entry_sender = ''user'' \<rparr>]
       \<and> map_of (form_fields req) ''message'' = Some (FText (trim (message st)))
       \<and> (trim (message st) \<noteq> message st) =
           (is_white_space (hd (message st)) \<or> is_white_space (last (message st)))"
proof -
  from assms obtain st1 req where rq: "sendMessage_request st = Some (st1, req)"
    using sendMessage_request_passes by blast
  show ?thesis
    using assms rq sendMessage_request_state(4) [OF rq] trim_ends [OF assms]
    by (simp add: sendMessage_request_fields [OF rq] text_entry_def)
qed

theorem sendMessage_shows_untrimmed_witness:
  "trim (message (init\<lparr> message := ''  hi '' \<rparr>)) \<noteq> []
   \<and> (\<exists>st1 req. sendMessage_request (init\<lparr> message := ''  hi '' \<rparr>) = Some (st1, req)
        \<and> chat st1 =
            [\<lparr> entry_type = ''text'', entry_value = JStr ''  hi '', entry_sender = ''user'' \<rparr>]
        \<and> map_of (form_fields req) ''message'' = Some (FText ''hi''))
   \<and> trim ''  hi '' \<noteq> ''  hi ''
   \<and> is_white_space (hd ''  hi '')"
proof -
  have t: "trim (message (init\<lparr> message := ''  hi '' \<rparr>)) \<noteq> []"
    by (simp add: init_def trim_def is_white_space_def)
  from sendMessage_shows_untrimmed [OF t] obtain st1 req where
    1: "sendMessage_request (init\<lparr> message := ''  hi '' \<rparr>) = Some (st1, req)" and
    2: "chat st1 = chat (init\<lparr> message := ''  hi '' \<rparr>)
          @ [\<lparr> entry_type = ''text'', entry_value = JStr (message (init\<lparr> message := ''  hi '' \<rparr>)),
               entry_sender = ''user'' \<rparr>]" and
    3: "map_of (form_fields req) ''message'' =
          Some (FText (trim (message (init\<lparr> message := ''  hi '' \<rparr>))))" and
    4: "(trim (message (init\<lparr> message := ''  hi '' \<rparr>)) \<noteq> message (init\<lparr> message := ''  hi '' \<rparr>)) =
          (is_white_space (hd (message (init\<lparr> message := ''  hi '' \<rparr>)))
           \<or> is_white_space (last (message (init\<lparr> message := ''  hi '' \<rparr>))))"
    by blast
  have w: "is_white_space (hd ''  hi '')"
    by (simp add: is_white_space_def)
  have m: "message (init\<lparr> message := ''  hi '' \<rparr>) = ''  hi ''"
    by simp
  have tr: "trim ''  hi '' = ''hi''"
    by (simp add: trim_def is_white_space_def)
  from 4 w have d: "trim ''  hi '' \<noteq> ''  hi ''"
    unfolding m by blast
  from 2 have c: "chat st1 =
      [\<lparr> entry_type = ''text'', entry_value = JStr ''  hi '', entry_sender = ''user'' \<rparr>]"
    by (simp add: init_def)
  from 3 have f: "map_of (form_fields req) ''message'' = Some (FText ''hi'')"
    unfolding m tr .
  from t 1 c f d w show ?thesis by blast
qed

end
